theory Spec2Isabelle
  imports Complex_Main
begin

section \<open>JavaScript values\<close>

text \<open>
  The chart of \<^verbatim>\<open>js/d3.dependencyWheel.js\<close> passes JavaScript values around: option
  fields, display names, package objects, and the \<^verbatim>\<open>false\<close> and \<^verbatim>\<open>undefined\<close> placeholders
  that its callback lists hold before they are filtered. A package object is a record
  with the one property the chart reads (\<^verbatim>\<open>pkg.name\<close>) and an identity standing for the
  rest of the object. Finite numbers are reals; \<^verbatim>\<open>NaN\<close> is a value of its own.
\<close>

record pkg =
  name :: string
  ident :: nat

datatype jsval =
    JUndefined
  | JNull
  | JBool bool
  | JNum real
  | JNaN
  | JStr string
  | JObj pkg

text \<open>JavaScript's ToBoolean: what \<^verbatim>\<open>||\<close>, \<^verbatim>\<open>&&\<close>, \<^verbatim>\<open>?:\<close>, \<^verbatim>\<open>if\<close> and \<^verbatim>\<open>filterTrue\<close> test.\<close>

fun truthy :: "jsval \<Rightarrow> bool" where
  "truthy JUndefined = False"
| "truthy JNull = False"
| "truthy (JBool b) = b"
| "truthy (JNum x) = (x \<noteq> 0)"
| "truthy JNaN = False"
| "truthy (JStr s) = (s \<noteq> [])"
| "truthy (JObj p) = True"

text \<open>\<^verbatim>\<open>a || b\<close>: the left operand when it is truthy, else the right one.\<close>

definition js_or :: "jsval \<Rightarrow> jsval \<Rightarrow> jsval" where
  "js_or a b = (if truthy a then a else b)"

text \<open>\<^verbatim>\<open>xs[i]\<close>: a read out of range yields \<^verbatim>\<open>undefined\<close>, here \<open>None\<close>.\<close>

definition js_nth :: "'a list \<Rightarrow> nat \<Rightarrow> 'a option" where
  "js_nth xs i = (if i < length xs then Some (xs ! i) else None)"

datatype js_error = TypeError

section \<open>The constructor and its configuration\<close>

text \<open>
  \<^verbatim>\<open>d3.chart.dependencyWheel = function(options)\<close>, lines 34 to 39 and 190 to 208. A
  property the caller left out reads as \<^verbatim>\<open>undefined\<close>; \<open>onNodeChosed\<close> records whether a
  handler function was supplied. The closure variables \<^verbatim>\<open>width\<close>, \<^verbatim>\<open>margin\<close> and
  \<^verbatim>\<open>padding\<close> are the fields of \<open>chart\<close>, named after the accessors that read them.
\<close>

record options =
  width :: jsval
  margin :: jsval
  padding :: jsval
  onNodeChosed :: bool

record chart =
  chart_width :: jsval
  chart_margin :: jsval
  chart_padding :: jsval
  chart_onNodeChosed :: bool

definition empty_options :: options where
  "empty_options =
     \<lparr>width = JUndefined, margin = JUndefined, padding = JUndefined, onNodeChosed = False\<rparr>"

definition dependencyWheel :: "options option \<Rightarrow> chart" where
  "dependencyWheel opts =
     (let options = (case opts of None \<Rightarrow> empty_options | Some v \<Rightarrow> v) in
      \<lparr>chart_width = js_or (width options) (JNum 700),
       chart_margin = js_or (margin options) (JNum 150),
       chart_padding = js_or (padding options) (JNum (2 / 100)),
       chart_onNodeChosed = onNodeChosed options\<rparr>)"

text \<open>The setters \<^verbatim>\<open>chart.width(value)\<close>, \<^verbatim>\<open>chart.margin(value)\<close>, \<^verbatim>\<open>chart.padding(value)\<close>
  store their argument unchanged.\<close>

definition set_width :: "jsval \<Rightarrow> chart \<Rightarrow> chart" where
  "set_width v c = c\<lparr>chart_width := v\<rparr>"

definition set_margin :: "jsval \<Rightarrow> chart \<Rightarrow> chart" where
  "set_margin v c = c\<lparr>chart_margin := v\<rparr>"

definition set_padding :: "jsval \<Rightarrow> chart \<Rightarrow> chart" where
  "set_padding v c = c\<lparr>chart_padding := v\<rparr>"

section \<open>Chart data\<close>

text \<open>
  The datum the chart is called with (lines 44 to 51): the dependency matrix, the
  display names, and the optional array of package objects. When \<^verbatim>\<open>packages\<close> is
  present the variable \<^verbatim>\<open>packageNames\<close> is overwritten with the packages' names.
  Matrix cells are finite numbers.
\<close>

record data =
  matrix :: "real list list"
  packageNames :: "string list"
  packages :: "pkg list option"

definition chart_packageNames :: "data \<Rightarrow> string list" where
  "chart_packageNames d =
     (case packages d of Some ps \<Rightarrow> map name ps | None \<Rightarrow> packageNames d)"

text \<open>
  What the chart reads of the layout's output: a group \<^verbatim>\<open>{index, startAngle, endAngle}\<close>
  and a chord \<^verbatim>\<open>{source: {index}, target: {index}}\<close>. The sub-arc angles of a chord's two
  ends only feed the path generator and are left out. An event handler receives the
  datum bound to the element, a group or a chord, and the element's position.
\<close>

record node_ref =
  index :: nat

record group = node_ref +
  startAngle :: real
  endAngle :: real

record chord =
  source :: node_ref
  target :: node_ref

datatype datum = GroupD group | ChordD chord

text \<open>\<^verbatim>\<open>i = g.source ? g.source.index : i\<close> (lines 83 and 123).\<close>

definition event_index :: "datum \<Rightarrow> nat \<Rightarrow> nat" where
  "event_index g i = (case g of ChordD c \<Rightarrow> index (source c) | GroupD _ \<Rightarrow> i)"

section \<open>The selection callback\<close>

text \<open>\<^verbatim>\<open>packages ? packages[j] : packageNames[j]\<close>, with a read out of range
  giving \<^verbatim>\<open>undefined\<close>.\<close>

definition pkg_val :: "pkg list \<Rightarrow> nat \<Rightarrow> jsval" where
  "pkg_val ps j = (case js_nth ps j of None \<Rightarrow> JUndefined | Some p \<Rightarrow> JObj p)"

definition name_val :: "string list \<Rightarrow> nat \<Rightarrow> jsval" where
  "name_val ns j = (case js_nth ns j of None \<Rightarrow> JUndefined | Some s \<Rightarrow> JStr s)"

definition node_of :: "data \<Rightarrow> nat \<Rightarrow> jsval" where
  "node_of d j =
     (case packages d of Some ps \<Rightarrow> pkg_val ps j | None \<Rightarrow> name_val (chart_packageNames d) j)"

text \<open>
  The second argument (lines 127 to 132): row \<^verbatim>\<open>idx\<close> mapped cell by cell to the node of
  the cell's column when the cell is truthy and to \<^verbatim>\<open>undefined\<close> otherwise, then
  filtered by \<^verbatim>\<open>filterTrue\<close>.
\<close>

definition deps :: "data \<Rightarrow> real list \<Rightarrow> jsval list" where
  "deps d row =
     filter truthy
       (map2 (\<lambda>v j. if v \<noteq> 0 then node_of d j else JUndefined) row [0..<length row])"

text \<open>\<^verbatim>\<open>arr[idx] != 0\<close>: a cell that is missing reads \<^verbatim>\<open>undefined\<close>, which is not
  loosely equal to 0.\<close>

definition ne_zero :: "real list \<Rightarrow> nat \<Rightarrow> bool" where
  "ne_zero arr idx = (case js_nth arr idx of None \<Rightarrow> True | Some v \<Rightarrow> v \<noteq> 0)"

text \<open>
  The third argument (lines 133 to 138): every row \<^verbatim>\<open>arr\<close> at position \<^verbatim>\<open>i\<close> mapped to
  \<^verbatim>\<open>arr[idx] != 0 && (packages ? packages[idx] : packageNames[i])\<close>, then filtered. With
  packages the code reads \<^verbatim>\<open>packages[idx]\<close>, the selected node; without them
  \<^verbatim>\<open>packageNames[i]\<close>, the row's node.
\<close>

definition requires :: "data \<Rightarrow> nat \<Rightarrow> jsval list" where
  "requires d idx =
     filter truthy
       (map2 (\<lambda>arr i.
                if ne_zero arr idx
                then (case packages d of
                        Some ps \<Rightarrow> pkg_val ps idx
                      | None \<Rightarrow> name_val (chart_packageNames d) i)
                else JBool False)
          (matrix d) [0..<length (matrix d)])"

text \<open>
  \<^verbatim>\<open>getChosenNode\<close> (lines 122 to 139): the three arguments the handler
  \<^verbatim>\<open>options.onNodeChosed\<close> is called with. \<^verbatim>\<open>matrix[idx].map\<close> raises a TypeError when
  the matrix has no row \<^verbatim>\<open>idx\<close>. Without a handler nothing is bound to the click.
\<close>

definition getChosenNode :: "data \<Rightarrow> datum \<Rightarrow> nat \<Rightarrow> js_error + jsval \<times> jsval list \<times> jsval list"
  where
  "getChosenNode d n i =
     (let idx = event_index n i in
      case js_nth (matrix d) idx of
        None \<Rightarrow> Inl TypeError
      | Some row \<Rightarrow> Inr (node_of d idx, deps d row, requires d idx))"

definition on_click ::
  "chart \<Rightarrow> data \<Rightarrow> datum \<Rightarrow> nat \<Rightarrow> (js_error + jsval \<times> jsval list \<times> jsval list) option"
  where
  "on_click c d n i = (if chart_onNodeChosed c then Some (getChosenNode d n i) else None)"

section \<open>Fading\<close>

text \<open>
  The rendered elements the handlers touch: the chord paths (\<^verbatim>\<open>chords\<close>, line 173) and
  the group elements (\<^verbatim>\<open>node_label\<close>, line 144), each with its bound datum and its
  opacity. A transition is modelled by the opacity it ends at.
\<close>

record svg =
  chords :: "(chord \<times> real) list"
  node_label :: "(group \<times> real) list"

text \<open>The \<^verbatim>\<open>chords.each\<close> loop of lines 91 to 99, collecting the other end of every
  chord that touches \<^verbatim>\<open>i\<close>.\<close>

fun related_groups :: "chord list \<Rightarrow> nat \<Rightarrow> nat list" where
  "related_groups [] i = []"
| "related_groups (d # ds) i =
     (if index (source d) = i then [index (target d)] else []) @
     (if index (target d) = i then [index (source d)] else []) @
     related_groups ds i"

text \<open>The filter of lines 103 to 108: \<^verbatim>\<open>false\<close> as soon as an entry of \<^verbatim>\<open>groups\<close>
  equals the group's index.\<close>

fun unrelated :: "nat list \<Rightarrow> nat \<Rightarrow> bool" where
  "unrelated [] k = True"
| "unrelated (g # gs) k = (if g = k then False else unrelated gs k)"

definition fade :: "real \<Rightarrow> datum \<Rightarrow> nat \<Rightarrow> svg \<Rightarrow> svg" where
  "fade opacity g i0 s =
     (let i = event_index g i0;
          groups = related_groups (map fst (chords s)) i @ [i]
      in \<lparr>chords =
            map (\<lambda>(d, a). if index (source d) \<noteq> i \<and> index (target d) \<noteq> i
                           then (d, opacity) else (d, a)) (chords s),
          node_label =
            map (\<lambda>(d, a). if unrelated groups (index d) then (d, opacity) else (d, a))
              (node_label s)\<rparr>)"

definition fadeOut :: "datum \<Rightarrow> nat \<Rightarrow> svg \<Rightarrow> svg" where
  "fadeOut = fade (1 / 10)"

definition fadeIn :: "datum \<Rightarrow> nat \<Rightarrow> svg \<Rightarrow> svg" where
  "fadeIn = fade 1"

text \<open>The neutral state: every chord and every group at opacity 1.\<close>

definition all_opaque :: "svg \<Rightarrow> bool" where
  "all_opaque s = (list_all (\<lambda>(d, a). a = 1) (chords s) \<and> list_all (\<lambda>(d, a). a = 1) (node_label s))"

text \<open>The elements still at opacity 1.\<close>

definition highlighted_groups :: "svg \<Rightarrow> nat list" where
  "highlighted_groups s = map (\<lambda>(d, a). index d) (filter (\<lambda>(d, a). a = 1) (node_label s))"

definition highlighted_chords :: "svg \<Rightarrow> chord list" where
  "highlighted_chords s = map fst (filter (\<lambda>(d, a). a = 1) (chords s))"

section \<open>Rotation\<close>

text \<open>
  Lines 141 and 142: \<^verbatim>\<open>rootGroup = chord.groups()[0]\<close> and
  \<^verbatim>\<open>rotation = - (rootGroup.endAngle - rootGroup.startAngle) / 2 * (180 / Math.PI)\<close>, in
  degrees. Reading \<^verbatim>\<open>endAngle\<close> of \<^verbatim>\<open>undefined\<close> raises a TypeError when there is no
  group. Angles are real numbers here; rounding of floating-point arithmetic is not
  modelled.
\<close>

definition rotation :: "group list \<Rightarrow> js_error + real" where
  "rotation gs =
     (case gs of
        [] \<Rightarrow> Inl TypeError
      | rootGroup # _ \<Rightarrow> Inr (- (endAngle rootGroup - startAngle rootGroup) / 2 * (180 / pi)))"

text \<open>Line 153, \<^verbatim>\<open>d.angle = (d.startAngle + d.endAngle) / 2\<close>, the midpoint of a group,
  and line 157, the rotation of its label in degrees.\<close>

definition angle :: "group \<Rightarrow> real" where
  "angle d = (startAngle d + endAngle d) / 2"

definition label_rotate :: "group \<Rightarrow> real" where
  "label_rotate d = angle d * 180 / pi - 90"

section \<open>The chord layout\<close>

datatype layout_error = ValidationError | LayoutError

record wheel_layout =
  layout_groups :: "group list"
  layout_chords :: "chord list"

text \<open>
  Modelled from the spec: the layout engine the chart calls (\<^verbatim>\<open>d3.layout.chord\<close>, lines 56
  to 58 and 114) is not among the sources. A matrix is well formed when it is square
  and its weights are non-negative (spec, sections 3 and 7).
\<close>

definition valid_matrix :: "real list list \<Rightarrow> bool" where
  "valid_matrix m = list_all (\<lambda>row. length row = length m \<and> list_all (\<lambda>v. 0 \<le> v) row) m"

text \<open>
  Modelled from the spec: the layout engine is not among the sources. A node's total
  weight is the sum of its row and its column, the diagonal excluded (section 4.1).
\<close>

definition node_weight :: "real list list \<Rightarrow> nat \<Rightarrow> real" where
  "node_weight m i =
     sum_list (map (\<lambda>j. if j = i then 0 else m ! i ! j + m ! j ! i) [0..<length m])"

definition total_weight :: "real list list \<Rightarrow> real" where
  "total_weight m = sum_list (map (node_weight m) [0..<length m])"

text \<open>
  Modelled from the spec: the layout engine is not among the sources. The data angle
  \<open>2\<pi> - N \<sqdot> padding\<close> is shared among the groups in proportion to their total weights
  (section 4.1); a matrix without any weight gives every group a sector of width zero
  (section 7).
\<close>

definition group_span :: "real list list \<Rightarrow> real \<Rightarrow> nat \<Rightarrow> real" where
  "group_span m pad i =
     (if total_weight m = 0 then 0
      else (2 * pi - real (length m) * pad) * node_weight m i / total_weight m)"

text \<open>
  Modelled from the spec: the layout engine is not among the sources. The groups follow
  one another in index order from angle 0, each followed by \<open>padding\<close> radians
  (section 4.1).
\<close>

fun allocate :: "real \<Rightarrow> real \<Rightarrow> nat \<Rightarrow> real list \<Rightarrow> group list" where
  "allocate x pad i [] = []"
| "allocate x pad i (w # ws) =
     \<lparr>index = i, startAngle = x, endAngle = x + w\<rparr> # allocate (x + w + pad) pad (Suc i) ws"

text \<open>
  Modelled from the spec: the layout engine is not among the sources. One chord record
  per matrix cell \<open>(i, j)\<close> with a value above 0 and \<open>i \<noteq> j\<close>, directed from \<open>i\<close> to
  \<open>j\<close> (sections 3 and 4.1); the spec leaves their order open, here it is row by row.
\<close>

definition row_chords :: "real list list \<Rightarrow> nat \<Rightarrow> chord list" where
  "row_chords m i =
     concat (map (\<lambda>j.
         if 0 < m ! i ! j \<and> i \<noteq> j
         then [\<lparr>source = \<lparr>index = i\<rparr>, target = \<lparr>index = j\<rparr>\<rparr>] else [])
       [0..<length m])"

definition chord_records :: "real list list \<Rightarrow> chord list" where
  "chord_records m = concat (map (row_chords m) [0..<length m])"

text \<open>
  Modelled from the spec: the layout engine is not among the sources. A malformed
  matrix fails with a validation error; \<open>padding \<sqdot> N \<ge> 2\<pi>\<close> fails with a layout error
  before any angle is allocated (section 7); otherwise the groups and the chord records
  are returned (section 4.1).
\<close>

definition layout :: "real list list \<Rightarrow> real \<Rightarrow> layout_error + wheel_layout" where
  "layout m pad =
     (if \<not> valid_matrix m then Inl ValidationError
      else if 2 * pi \<le> pad * real (length m) then Inl LayoutError
      else Inr \<lparr>layout_groups = allocate 0 pad 0 (map (group_span m pad) [0..<length m]),
                layout_chords = chord_records m\<rparr>)"

text \<open>
  What the chart draws from a layout (lines 144 to 186): one group element per group and
  one path per chord, all at opacity 1.
\<close>

definition render :: "wheel_layout \<Rightarrow> svg" where
  "render L =
     \<lparr>chords = map (\<lambda>c. (c, 1)) (layout_chords L),
      node_label = map (\<lambda>g. (g, 1)) (layout_groups L)\<rparr>"

section \<open>The dependents list as specified, and example data\<close>

text \<open>
  Following the spec's words (section 4.4, item c), for comparison with \<open>requires\<close>: the
  nodes that depend on node \<open>idx\<close> are the rows \<open>j\<close> whose cell in column \<open>idx\<close> is
  non-zero, in row order, each given as node \<open>j\<close>'s associated object if packages are
  present, else as node \<open>j\<close>'s display name.
\<close>

definition dependents_spec :: "data \<Rightarrow> nat \<Rightarrow> jsval list" where
  "dependents_spec d idx =
     map (node_of d) (filter (\<lambda>j. ne_zero (matrix d ! j) idx) [0..<length (matrix d)])"

text \<open>
  A two-node wheel with a weight on the diagonal and different weights in the two
  directions between its nodes, and what the layout returns for it with the default
  padding.
\<close>

definition example_matrix :: "real list list" where
  "example_matrix = [[5, 1], [2, 0]]"

definition example_layout :: wheel_layout where
  "example_layout =
     \<lparr>layout_groups =
        allocate 0 (2 / 100) 0
          (map (group_span example_matrix (2 / 100)) [0..<length example_matrix]),
      layout_chords = chord_records example_matrix\<rparr>"

section \<open>Falsy options\<close>

lemma js_or_falsy: "\<not> truthy a \<Longrightarrow> js_or a b = b"
  by (simp add: js_or_def)

lemma js_or_truthy: "truthy b \<Longrightarrow> truthy (js_or a b)"
  by (simp add: js_or_def)

lemma truthy_not_zero: "truthy v \<Longrightarrow> v \<noteq> JNum 0"
  by (cases v) simp_all

lemma js_or_not_zero: "truthy b \<Longrightarrow> js_or a b \<noteq> JNum 0"
  by (rule truthy_not_zero) (rule js_or_truthy)

text \<open>
  Claim C10. A falsy value (\<^verbatim>\<open>0\<close>, \<^verbatim>\<open>NaN\<close>, \<^verbatim>\<open>null\<close>, \<^verbatim>\<open>undefined\<close>, \<^verbatim>\<open>false\<close>, the empty
  string) supplied for \<^verbatim>\<open>width\<close>, \<^verbatim>\<open>margin\<close> or \<^verbatim>\<open>padding\<close> in the options object is
  replaced by the default 700, 150 or 0.02; so whatever the options object holds, the
  constructed chart has neither width 0 nor padding 0.
\<close>

theorem dependencyWheel_falsy_defaults:
  "(\<not> truthy (width opts) \<longrightarrow> chart_width (dependencyWheel (Some opts)) = JNum 700) \<and>
   (\<not> truthy (margin opts) \<longrightarrow> chart_margin (dependencyWheel (Some opts)) = JNum 150) \<and>
   (\<not> truthy (padding opts) \<longrightarrow> chart_padding (dependencyWheel (Some opts)) = JNum (2 / 100)) \<and>
   chart_width (dependencyWheel (Some opts)) \<noteq> JNum 0 \<and>
   chart_margin (dependencyWheel (Some opts)) \<noteq> JNum 0 \<and>
   chart_padding (dependencyWheel (Some opts)) \<noteq> JNum 0"
  by (simp add: dependencyWheel_def js_or_falsy js_or_not_zero)

theorem dependencyWheel_falsy_defaults_witness:
  "chart_width (dependencyWheel (Some \<lparr>width = JNum 0, margin = JNum 0,
      padding = JNum 0, onNodeChosed = False\<rparr>)) = JNum 700 \<and>
   chart_margin (dependencyWheel (Some \<lparr>width = JNum 0, margin = JNum 0,
      padding = JNum 0, onNodeChosed = False\<rparr>)) = JNum 150 \<and>
   chart_padding (dependencyWheel (Some \<lparr>width = JNum 0, margin = JNum 0,
      padding = JNum 0, onNodeChosed = False\<rparr>)) = JNum (2 / 100)"
  using dependencyWheel_falsy_defaults
    [of "\<lparr>width = JNum 0, margin = JNum 0, padding = JNum 0, onNodeChosed = False\<rparr>"]
  by simp

section \<open>The lists of the selection callback\<close>

lemma map2_upt: "map2 f xs [0..<length xs] = map (\<lambda>j. f (xs ! j) j) [0..<length xs]"
  by (rule nth_equalityI) simp_all

lemma filter_map_if:
  "\<not> P z \<Longrightarrow>
   filter P (map (\<lambda>j. if c j then f j else z) xs) = map f (filter (\<lambda>j. c j \<and> P (f j)) xs)"
  by (induction xs) simp_all

lemma deps_char:
  "deps d row =
     map (node_of d) (filter (\<lambda>j. row ! j \<noteq> 0 \<and> truthy (node_of d j)) [0..<length row])"
  by (simp add: deps_def map2_upt filter_map_if)

lemma requires_names:
  "packages d = None \<Longrightarrow>
   requires d idx =
     map (node_of d)
       (filter (\<lambda>j. ne_zero (matrix d ! j) idx \<and> truthy (node_of d j)) [0..<length (matrix d)])"
  by (simp add: requires_def map2_upt node_of_def filter_map_if)

lemma requires_packages:
  "packages d = Some ps \<Longrightarrow>
   requires d idx =
     map (\<lambda>j. pkg_val ps idx)
       (filter (\<lambda>j. ne_zero (matrix d ! j) idx \<and> truthy (pkg_val ps idx))
          [0..<length (matrix d)])"
  by (simp add: requires_def map2_upt filter_map_if)

lemma truthy_deps: "list_all truthy (deps d row)"
  by (simp add: deps_def list_all_iff)

lemma truthy_requires: "list_all truthy (requires d idx)"
  by (simp add: requires_def list_all_iff)

text \<open>
  Without packages, and with a non-empty name for every row, the code's dependents list
  is the specified one: the branch \<^verbatim>\<open>packageNames[i]\<close> reads the row's node.
\<close>

lemma requires_names_only:
  assumes "packages d = None" and "length (packageNames d) = length (matrix d)"
    and "list_all (\<lambda>s. s \<noteq> []) (packageNames d)"
  shows "requires d idx = dependents_spec d idx"
proof -
  have "truthy (node_of d j)" if "j < length (matrix d)" for j
    using that assms
    by (simp add: node_of_def name_val_def js_nth_def chart_packageNames_def list_all_length)
  then have "filter (\<lambda>j. ne_zero (matrix d ! j) idx \<and> truthy (node_of d j))
               [0..<length (matrix d)] =
             filter (\<lambda>j. ne_zero (matrix d ! j) idx) [0..<length (matrix d)]"
    by (intro filter_cong) auto
  with assms(1) show ?thesis
    by (simp add: requires_names dependents_spec_def)
qed

text \<open>The scenario of the header comment, without packages: selecting \<^verbatim>\<open>B\<close>.\<close>

lemma getChosenNode_names_example:
  "getChosenNode \<lparr>matrix = [[0, 1, 1], [0, 0, 1], [0, 0, 0]],
      packageNames = [''Main'', ''A'', ''B''], packages = None\<rparr>
      (GroupD \<lparr>index = 2, startAngle = 4, endAngle = 6\<rparr>) 2 =
     Inr (JStr ''B'', [], [JStr ''Main'', JStr ''A''])"
  by (simp add: getChosenNode_def event_index_def js_nth_def node_of_def name_val_def deps_def
      requires_def ne_zero_def chart_packageNames_def upt_conv_Cons)

text \<open>
  Claim C1. The dependents handed to the callback should be the nodes \<open>j\<close> with
  \<open>matrix[j][i]\<close> non-zero, each as node \<open>j\<close>'s associated object when packages are
  present. With packages the code returns the selected node's own object once per
  dependent row: in the header comment's scenario with package objects, selecting \<^verbatim>\<open>B\<close>
  yields \<^verbatim>\<open>B\<close> twice where the specified list is \<^verbatim>\<open>Main\<close>, \<^verbatim>\<open>A\<close>.
\<close>

theorem requires_packages_selected_node:
  "requires \<lparr>matrix = [[0, 1, 1], [0, 0, 1], [0, 0, 0]], packageNames = [],
      packages = Some [\<lparr>name = ''Main'', ident = 0\<rparr>, \<lparr>name = ''A'', ident = 1\<rparr>,
                       \<lparr>name = ''B'', ident = 2\<rparr>]\<rparr> 2 =
     [JObj \<lparr>name = ''B'', ident = 2\<rparr>, JObj \<lparr>name = ''B'', ident = 2\<rparr>] \<and>
   dependents_spec \<lparr>matrix = [[0, 1, 1], [0, 0, 1], [0, 0, 0]], packageNames = [],
      packages = Some [\<lparr>name = ''Main'', ident = 0\<rparr>, \<lparr>name = ''A'', ident = 1\<rparr>,
                       \<lparr>name = ''B'', ident = 2\<rparr>]\<rparr> 2 =
     [JObj \<lparr>name = ''Main'', ident = 0\<rparr>, JObj \<lparr>name = ''A'', ident = 1\<rparr>]"
  by (simp add: requires_def dependents_spec_def ne_zero_def js_nth_def node_of_def pkg_val_def
      upt_conv_Cons)

text \<open>The whole callback at the same input.\<close>

lemma getChosenNode_packages_example:
  "getChosenNode \<lparr>matrix = [[0, 1, 1], [0, 0, 1], [0, 0, 0]], packageNames = [],
      packages = Some [\<lparr>name = ''Main'', ident = 0\<rparr>, \<lparr>name = ''A'', ident = 1\<rparr>,
                       \<lparr>name = ''B'', ident = 2\<rparr>]\<rparr>
      (GroupD \<lparr>index = 2, startAngle = 4, endAngle = 6\<rparr>) 2 =
     Inr (JObj \<lparr>name = ''B'', ident = 2\<rparr>, [],
          [JObj \<lparr>name = ''B'', ident = 2\<rparr>, JObj \<lparr>name = ''B'', ident = 2\<rparr>])"
  by (simp add: getChosenNode_def event_index_def js_nth_def node_of_def pkg_val_def deps_def
      requires_def ne_zero_def upt_conv_Cons)

text \<open>
  Against claim C4 as stated: with a non-zero diagonal cell the selected node is in both
  lists. Selecting \<^verbatim>\<open>Main\<close> (index 0) with \<open>matrix[0][0] = 1\<close> lists \<^verbatim>\<open>Main\<close> among its own
  dependencies and among its own dependents.
\<close>

theorem getChosenNode_lists_self_included:
  "getChosenNode \<lparr>matrix = [[1, 1], [0, 0]], packageNames = [''Main'', ''A''], packages = None\<rparr>
      (GroupD \<lparr>index = 0, startAngle = 0, endAngle = 3\<rparr>) 0 =
     Inr (JStr ''Main'', [JStr ''Main'', JStr ''A''], [JStr ''Main''])"
  by (simp add: getChosenNode_def event_index_def js_nth_def node_of_def name_val_def deps_def
      requires_def ne_zero_def chart_packageNames_def upt_conv_Cons)

text \<open>
  Claim C4, amended. In the lists handed to the callback no falsy value remains, and
  an entry whose matrix weight is zero is omitted: the dependencies are the truthy nodes
  of the columns with a non-zero cell in the selected row and, without packages, the
  dependents are the truthy nodes of the rows with a non-zero cell in the selected
  column. The diagonal is not excluded: when \<open>matrix[i][i]\<close> is non-zero the selected
  node, if truthy, is listed among its own dependencies and, without packages, among its
  own dependents.
\<close>

theorem getChosenNode_lists:
  assumes "getChosenNode d n i = Inr (self, ds, rs)"
  shows "list_all truthy ds \<and> list_all truthy rs \<and>
    ds = map (node_of d)
           (filter (\<lambda>j. matrix d ! event_index n i ! j \<noteq> 0 \<and> truthy (node_of d j))
              [0..<length (matrix d ! event_index n i)]) \<and>
    (packages d = None \<longrightarrow>
       rs = map (node_of d)
              (filter (\<lambda>j. ne_zero (matrix d ! j) (event_index n i) \<and> truthy (node_of d j))
                 [0..<length (matrix d)])) \<and>
    (event_index n i < length (matrix d ! event_index n i) \<and>
     matrix d ! event_index n i ! event_index n i \<noteq> 0 \<and> truthy self \<longrightarrow>
       self \<in> set ds \<and> (packages d = None \<longrightarrow> self \<in> set rs))"
proof -
  let ?idx = "event_index n i"
  from assms have in_range: "?idx < length (matrix d)"
    and self: "self = node_of d ?idx"
    and ds: "ds = deps d (matrix d ! ?idx)"
    and rs: "rs = requires d ?idx"
    by (auto simp: getChosenNode_def js_nth_def Let_def split: if_splits)
  have ds_char: "ds = map (node_of d)
           (filter (\<lambda>j. matrix d ! ?idx ! j \<noteq> 0 \<and> truthy (node_of d j))
              [0..<length (matrix d ! ?idx)])"
    unfolding ds by (rule deps_char)
  have rs_char: "rs = map (node_of d)
              (filter (\<lambda>j. ne_zero (matrix d ! j) ?idx \<and> truthy (node_of d j))
                 [0..<length (matrix d)])" if "packages d = None"
    unfolding rs using that by (rule requires_names)
  have self_ds: "self \<in> set ds"
    if "?idx < length (matrix d ! ?idx)" "matrix d ! ?idx ! ?idx \<noteq> 0" "truthy self"
    using that unfolding ds_char self by simp
  have self_rs: "self \<in> set rs"
    if "?idx < length (matrix d ! ?idx)" "matrix d ! ?idx ! ?idx \<noteq> 0" "truthy self"
      "packages d = None"
  proof -
    have "ne_zero (matrix d ! ?idx) ?idx"
      using that by (simp add: ne_zero_def js_nth_def)
    then show ?thesis
      using that in_range unfolding rs_char [OF that(4)] self by simp
  qed
  have t_ds: "list_all truthy ds"
    unfolding ds by (rule truthy_deps)
  have t_rs: "list_all truthy rs"
    unfolding rs by (rule truthy_requires)
  from t_ds t_rs ds_char rs_char self_ds self_rs show ?thesis
    by blast
qed

theorem getChosenNode_lists_witness:
  "getChosenNode \<lparr>matrix = [[2, 0], [3, 0]], packageNames = [''x'', ''y''], packages = None\<rparr>
      (GroupD \<lparr>index = 0, startAngle = 0, endAngle = 3\<rparr>) 0 =
     Inr (JStr ''x'', [JStr ''x''], [JStr ''x'', JStr ''y'']) \<and>
   list_all truthy [JStr ''x''] \<and> list_all truthy [JStr ''x'', JStr ''y''] \<and>
   JStr ''x'' \<in> set [JStr ''x''] \<and> JStr ''x'' \<in> set [JStr ''x'', JStr ''y'']"
proof -
  let ?d = "\<lparr>matrix = [[2, 0], [3, 0]], packageNames = [''x'', ''y''], packages = None\<rparr>"
  let ?g = "GroupD \<lparr>index = 0, startAngle = 0, endAngle = 3\<rparr>"
  have run: "getChosenNode ?d ?g 0 = Inr (JStr ''x'', [JStr ''x''], [JStr ''x'', JStr ''y''])"
    by (simp add: getChosenNode_def event_index_def js_nth_def node_of_def name_val_def deps_def
        requires_def ne_zero_def chart_packageNames_def upt_conv_Cons)
  note lists = getChosenNode_lists [OF run]
  from lists have no_falsy: "list_all truthy [JStr ''x''] \<and> list_all truthy [JStr ''x'', JStr ''y'']"
    by blast
  have "event_index ?g 0 < length (matrix ?d ! event_index ?g 0) \<and>
        matrix ?d ! event_index ?g 0 ! event_index ?g 0 \<noteq> 0 \<and> truthy (JStr ''x'')"
    and "packages ?d = None"
    by (simp_all add: event_index_def)
  with lists have "JStr ''x'' \<in> set [JStr ''x''] \<and> JStr ''x'' \<in> set [JStr ''x'', JStr ''y'']"
    by blast
  with no_falsy run show ?thesis
    by blast
qed

section \<open>The chord records of the layout\<close>

lemma concat_map_if_eq:
  "concat (map (\<lambda>b. if b = j \<and> Q b then [f b] else []) [0..<n]) =
   (if j < n \<and> Q j then [f j] else [])"
  by (induction n) auto

lemma filter_concat_map_if:
  "filter P (concat (map (\<lambda>b. if C b then [f b] else []) xs)) =
   concat (map (\<lambda>b. if C b \<and> P (f b) then [f b] else []) xs)"
  by (induction xs) simp_all

lemma filter_row_chords:
  "filter (\<lambda>c. index (source c) = i \<and> index (target c) = j) (row_chords m a) =
   (if a = i \<and> (j < length m \<and> 0 < m ! a ! j \<and> a \<noteq> j)
    then [\<lparr>source = \<lparr>index = a\<rparr>, target = \<lparr>index = j\<rparr>\<rparr>] else [])"
proof -
  let ?mk = "\<lambda>b. \<lparr>source = \<lparr>index = a\<rparr>, target = \<lparr>index = b\<rparr>\<rparr>"
  have "filter (\<lambda>c. index (source c) = i \<and> index (target c) = j) (row_chords m a) =
        concat (map (\<lambda>b. if b = j \<and> (0 < m ! a ! b \<and> a \<noteq> b \<and> a = i) then [?mk b] else [])
               [0..<length m])"
    unfolding row_chords_def filter_concat_map_if
    by (rule arg_cong [where f = concat], rule map_cong) auto
  also have "\<dots> = (if j < length m \<and> (0 < m ! a ! j \<and> a \<noteq> j \<and> a = i) then [?mk j] else [])"
    by (rule concat_map_if_eq)
  finally show ?thesis by auto
qed

lemma filter_chord_records:
  "filter (\<lambda>c. index (source c) = i \<and> index (target c) = j) (chord_records m) =
   (if i < length m \<and> j < length m \<and> 0 < m ! i ! j \<and> i \<noteq> j
    then [\<lparr>source = \<lparr>index = i\<rparr>, target = \<lparr>index = j\<rparr>\<rparr>] else [])"
proof -
  let ?mk = "\<lambda>a. \<lparr>source = \<lparr>index = a\<rparr>, target = \<lparr>index = j\<rparr>\<rparr>"
  have "filter (\<lambda>c. index (source c) = i \<and> index (target c) = j) (chord_records m) =
        concat (map (\<lambda>a. if a = i \<and> (j < length m \<and> 0 < m ! a ! j \<and> a \<noteq> j)
                          then [?mk a] else [])
          [0..<length m])"
    by (simp only: chord_records_def filter_concat map_map comp_def filter_row_chords)
  also have "\<dots> = (if i < length m \<and> (j < length m \<and> 0 < m ! i ! j \<and> i \<noteq> j)
                    then [?mk i] else [])"
    by (rule concat_map_if_eq)
  finally show ?thesis by simp
qed

lemma set_chord_records:
  "set (chord_records m) =
   {\<lparr>source = \<lparr>index = a\<rparr>, target = \<lparr>index = b\<rparr>\<rparr> | a b.
      a < length m \<and> b < length m \<and> 0 < m ! a ! b \<and> a \<noteq> b}"
  by (auto simp: chord_records_def row_chords_def split: if_splits)

lemma layout_Inr:
  "layout m pad = Inr L \<Longrightarrow>
   valid_matrix m \<and> pad * real (length m) < 2 * pi \<and>
   layout_groups L = allocate 0 pad 0 (map (group_span m pad) [0..<length m]) \<and>
   layout_chords L = chord_records m"
  by (auto simp: layout_def split: if_splits)

lemma map_index_allocate: "map index (allocate x pad i ws) = [i..<i + length ws]"
proof (induction ws arbitrary: x i)
  case Nil
  show ?case by simp
next
  case (Cons w ws)
  have "[i..<i + length (w # ws)] = i # [Suc i..<Suc i + length ws]"
    using upt_conv_Cons [of i "Suc i + length ws"] by (simp del: upt_Suc)
  with Cons show ?case by (simp del: upt_Suc)
qed

lemma small_padding: "pad * real n < 4 \<Longrightarrow> \<not> 2 * pi \<le> pad * real n"
  using pi_ge_two by linarith

lemma layout_example: "layout example_matrix (2 / 100) = Inr example_layout"
proof -
  have "valid_matrix example_matrix"
    by (simp add: valid_matrix_def example_matrix_def)
  moreover have "\<not> 2 * pi \<le> 2 / 100 * real (length example_matrix)"
    by (rule small_padding) (simp add: example_matrix_def)
  ultimately show ?thesis
    by (simp add: layout_def example_layout_def)
qed

lemma chord_records_example:
  "chord_records example_matrix =
     [\<lparr>source = \<lparr>index = 0\<rparr>, target = \<lparr>index = 1\<rparr>\<rparr>,
      \<lparr>source = \<lparr>index = 1\<rparr>, target = \<lparr>index = 0\<rparr>\<rparr>]"
  by (simp add: chord_records_def row_chords_def example_matrix_def upt_conv_Cons)

text \<open>
  Claim C2. In the layout as the spec describes it, a diagonal entry \<open>matrix[i][i]\<close>
  above zero produces no chord record: no record of the chord list has \<open>i\<close> as both
  its source index and its target index.
\<close>

theorem layout_diagonal_excluded:
  assumes "layout m pad = Inr L" and "i < length m" and "0 < m ! i ! i"
  shows "filter (\<lambda>c. index (source c) = i \<and> index (target c) = i) (layout_chords L) = []"
  using assms(1) by (simp add: layout_Inr filter_chord_records)

theorem layout_diagonal_excluded_witness:
  "layout example_matrix (2 / 100) = Inr example_layout \<and>
   0 < length example_matrix \<and> 0 < example_matrix ! 0 ! 0 \<and>
   filter (\<lambda>c. index (source c) = 0 \<and> index (target c) = 0) (layout_chords example_layout) = []"
proof -
  have "0 < length example_matrix" and "0 < example_matrix ! 0 ! 0"
    by (simp_all add: example_matrix_def)
  from layout_diagonal_excluded [OF layout_example this] this layout_example show ?thesis
    by simp
qed

text \<open>
  Claim C3. In the layout as the spec describes it, every cell \<open>(i, j)\<close> with
  \<open>matrix[i][j] > 0\<close> and \<open>i \<noteq> j\<close> has exactly one chord record with source index \<open>i\<close>
  and target index \<open>j\<close>; when \<open>matrix[j][i] > 0\<close> as well, the opposite direction has
  its own single record, so the pair gives two chords, not one merged chord.
\<close>

theorem layout_one_chord_per_edge:
  assumes "layout m pad = Inr L" and "i < length m" and "j < length m" and "i \<noteq> j"
    and "0 < m ! i ! j"
  shows "filter (\<lambda>c. index (source c) = i \<and> index (target c) = j) (layout_chords L) =
           [\<lparr>source = \<lparr>index = i\<rparr>, target = \<lparr>index = j\<rparr>\<rparr>] \<and>
         (0 < m ! j ! i \<longrightarrow>
            filter (\<lambda>c. index (source c) = j \<and> index (target c) = i) (layout_chords L) =
              [\<lparr>source = \<lparr>index = j\<rparr>, target = \<lparr>index = i\<rparr>\<rparr>])"
  using assms by (simp add: layout_Inr filter_chord_records)

theorem layout_one_chord_per_edge_witness:
  "layout example_matrix (2 / 100) = Inr example_layout \<and>
   0 < example_matrix ! 0 ! 1 \<and> 0 < example_matrix ! 1 ! 0 \<and>
   filter (\<lambda>c. index (source c) = 0 \<and> index (target c) = 1) (layout_chords example_layout) =
     [\<lparr>source = \<lparr>index = 0\<rparr>, target = \<lparr>index = 1\<rparr>\<rparr>] \<and>
   filter (\<lambda>c. index (source c) = 1 \<and> index (target c) = 0) (layout_chords example_layout) =
     [\<lparr>source = \<lparr>index = 1\<rparr>, target = \<lparr>index = 0\<rparr>\<rparr>]"
proof -
  have h: "0 < length example_matrix" "1 < length example_matrix" "(0::nat) \<noteq> 1"
    "0 < example_matrix ! 0 ! 1"
    and h': "0 < example_matrix ! 1 ! 0"
    by (simp_all add: example_matrix_def)
  from layout_one_chord_per_edge [OF layout_example h] h h' layout_example show ?thesis
    by simp
qed

text \<open>
  Claim C8. In the layout as the spec describes it, a well-formed \<open>N \<times> N\<close> matrix with
  \<open>padding \<sqdot> N \<ge> 2\<pi>\<close> fails with a layout error; no group is allocated.
\<close>

theorem layout_padding_error:
  assumes "valid_matrix m" and "2 * pi \<le> pad * real (length m)"
  shows "layout m pad = Inl LayoutError"
  using assms by (simp add: layout_def)

theorem layout_padding_error_witness:
  "valid_matrix [[0]] \<and> 2 * pi \<le> 8 * real (length [[0::real]]) \<and>
   layout [[0]] 8 = Inl LayoutError"
proof -
  have v: "valid_matrix [[0]]"
    by (simp add: valid_matrix_def)
  have p: "2 * pi \<le> 8 * real (length [[0::real]])"
    using pi_less_4 by simp
  from layout_padding_error [OF v p] v p show ?thesis
    by simp
qed

section \<open>Rotation of the root group\<close>

text \<open>
  Claim C7. For every well-formed, non-empty matrix the layout accepts, the rotation
  the chart computes from group 0 is the negation of group 0's midpoint angle
  (in degrees), so that the midpoint angle plus the rotation (back in radians) is 0.
  Group 0 starts at angle 0 in the layout as modelled, which makes half its width, what
  the code negates, its midpoint.
\<close>

theorem rotation_centres_root:
  assumes "layout m pad = Inr L" and "m \<noteq> []"
  shows "layout_groups L \<noteq> [] \<and> index (hd (layout_groups L)) = 0 \<and>
         rotation (layout_groups L) = Inr (- (angle (hd (layout_groups L)) * 180 / pi)) \<and>
         angle (hd (layout_groups L)) + (- (angle (hd (layout_groups L)) * 180 / pi)) * (pi / 180) = 0"
proof -
  from assms(2) have "[0..<length m] = 0 # [1..<length m]"
    by (simp add: upt_conv_Cons)
  then obtain w ws where "map (group_span m pad) [0..<length m] = w # ws"
    by simp
  with assms(1) have "layout_groups L =
      \<lparr>index = 0, startAngle = 0, endAngle = 0 + w\<rparr> # allocate (0 + w + pad) pad (Suc 0) ws"
    by (simp add: layout_Inr)
  then show ?thesis
    by (simp add: rotation_def angle_def)
qed

theorem rotation_centres_root_witness:
  "example_matrix \<noteq> [] \<and> layout example_matrix (2 / 100) = Inr example_layout \<and>
   rotation (layout_groups example_layout) =
     Inr (- (angle (hd (layout_groups example_layout)) * 180 / pi))"
proof -
  have "example_matrix \<noteq> []"
    by (simp add: example_matrix_def)
  from rotation_centres_root [OF layout_example this] this layout_example show ?thesis
    by simp
qed

section \<open>Fading and highlighting\<close>

lemma unrelated_iff: "unrelated gs k \<longleftrightarrow> k \<notin> set gs"
  by (induction gs) auto

lemma set_related_groups:
  "set (related_groups cs i) =
     {index (target c) | c. c \<in> set cs \<and> index (source c) = i} \<union>
     {index (source c) | c. c \<in> set cs \<and> index (target c) = i}"
  by (induction cs) auto

lemma fade_chord_data: "map fst (chords (fade opacity g k s)) = map fst (chords s)"
  by (simp add: fade_def Let_def case_prod_unfold comp_def if_distrib cong: if_cong)

lemma fade_chords:
  "chords (fade opacity g k s) =
     map (\<lambda>(d, a). (d, if index (source d) \<noteq> event_index g k \<and>
                          index (target d) \<noteq> event_index g k
                       then opacity else a)) (chords s)"
  by (simp add: fade_def Let_def case_prod_unfold if_distrib cong: if_cong)

lemma fade_node_label:
  "node_label (fade opacity g k s) =
     map (\<lambda>(d, a). (d, if index d \<noteq> event_index g k \<and>
                          index d \<notin> set (related_groups (map fst (chords s)) (event_index g k))
                       then opacity else a)) (node_label s)"
  by (auto simp add: fade_def Let_def case_prod_unfold unrelated_iff)

lemma fadeIn_fadeOut_chords:
  assumes "list_all (\<lambda>(d, a). a = 1) (chords s)" and "event_index g' k' = event_index g k"
  shows "chords (fadeIn g' k' (fadeOut g k s)) = chords s"
  using assms
  by (auto simp: fadeIn_def fadeOut_def fade_chords list_all_iff intro!: map_idI)

lemma fadeIn_fadeOut_node_label:
  assumes "list_all (\<lambda>(d, a). a = 1) (node_label s)" and "event_index g' k' = event_index g k"
  shows "node_label (fadeIn g' k' (fadeOut g k s)) = node_label s"
  using assms
  by (auto simp: fadeIn_def fadeOut_def fade_node_label fade_chord_data list_all_iff
      intro!: map_idI)

text \<open>
  Against claim C6 as stated: \<^verbatim>\<open>fadeIn\<close> does not restore every element whatever index it
  is invoked with. With chords \<open>0 \<rightarrow> 1\<close> and \<open>1 \<rightarrow> 2\<close>, fading out on group 0 dims the
  chord \<open>1 \<rightarrow> 2\<close> and the label of group 2; fading in on group 1 leaves both dimmed,
  since both are related to group 1 and \<^verbatim>\<open>fade\<close> only touches unrelated elements.
\<close>

theorem fadeIn_other_index_not_restored:
  "\<not> all_opaque
     (fadeIn (GroupD \<lparr>index = 1, startAngle = 2, endAngle = 4\<rparr>) 1
       (fadeOut (GroupD \<lparr>index = 0, startAngle = 0, endAngle = 2\<rparr>) 0
         \<lparr>chords = [(\<lparr>source = \<lparr>index = 0\<rparr>, target = \<lparr>index = 1\<rparr>\<rparr>, 1),
                    (\<lparr>source = \<lparr>index = 1\<rparr>, target = \<lparr>index = 2\<rparr>\<rparr>, 1)],
          node_label = [(\<lparr>index = 0, startAngle = 0, endAngle = 2\<rparr>, 1),
                        (\<lparr>index = 1, startAngle = 2, endAngle = 4\<rparr>, 1),
                        (\<lparr>index = 2, startAngle = 4, endAngle = 6\<rparr>, 1)]\<rparr>))"
  by (simp add: all_opaque_def fadeIn_def fadeOut_def fade_def event_index_def)

lemma fadeIn_fadeOut_round_trip:
  assumes "all_opaque s" and "event_index g' k' = event_index g k"
  shows "fadeIn g' k' (fadeOut g k s) = s"
proof -
  from assms have "chords (fadeIn g' k' (fadeOut g k s)) = chords s"
    by (simp add: all_opaque_def fadeIn_fadeOut_chords)
  moreover from assms have "node_label (fadeIn g' k' (fadeOut g k s)) = node_label s"
    by (simp add: all_opaque_def fadeIn_fadeOut_node_label)
  ultimately show ?thesis
    by (simp add: svg.equality)
qed

text \<open>
  Claim C6, amended. From the neutral state, \<^verbatim>\<open>fadeOut\<close> followed by \<^verbatim>\<open>fadeIn\<close> for the
  same focus index gives back the state it started from, every chord and every group
  label at opacity 1. In any state, \<^verbatim>\<open>fadeIn\<close> sets opacity 1 only on the elements
  unrelated to the index it is invoked with, the chords with neither end at that index and
  the labels of the groups that are neither that index nor joined to it by a chord; it
  leaves the opacity of every element related to that index as it was, so it does not
  restore them.
\<close>

theorem fadeIn_fadeOut_same_index:
  "(all_opaque s \<and> event_index g' k' = event_index g k \<longrightarrow>
      fadeIn g' k' (fadeOut g k s) = s \<and> all_opaque (fadeIn g' k' (fadeOut g k s))) \<and>
   chords (fadeIn g' k' s) =
     map (\<lambda>(d, a). (d, if index (source d) \<noteq> event_index g' k' \<and>
                          index (target d) \<noteq> event_index g' k'
                       then 1 else a)) (chords s) \<and>
   node_label (fadeIn g' k' s) =
     map (\<lambda>(d, a). (d, if index d \<noteq> event_index g' k' \<and>
                          index d \<notin> set (related_groups (map fst (chords s)) (event_index g' k'))
                       then 1 else a)) (node_label s)"
proof (intro conjI impI)
  assume h: "all_opaque s \<and> event_index g' k' = event_index g k"
  then show "fadeIn g' k' (fadeOut g k s) = s"
    by (simp add: fadeIn_fadeOut_round_trip)
  with h show "all_opaque (fadeIn g' k' (fadeOut g k s))"
    by simp
next
  show "chords (fadeIn g' k' s) =
     map (\<lambda>(d, a). (d, if index (source d) \<noteq> event_index g' k' \<and>
                          index (target d) \<noteq> event_index g' k'
                       then 1 else a)) (chords s)"
    unfolding fadeIn_def by (rule fade_chords)
next
  show "node_label (fadeIn g' k' s) =
     map (\<lambda>(d, a). (d, if index d \<noteq> event_index g' k' \<and>
                          index d \<notin> set (related_groups (map fst (chords s)) (event_index g' k'))
                       then 1 else a)) (node_label s)"
    unfolding fadeIn_def by (rule fade_node_label)
qed

theorem fadeIn_fadeOut_same_index_witness:
  "all_opaque
     \<lparr>chords = [(\<lparr>source = \<lparr>index = 0\<rparr>, target = \<lparr>index = 1\<rparr>\<rparr>, 1),
                (\<lparr>source = \<lparr>index = 1\<rparr>, target = \<lparr>index = 2\<rparr>\<rparr>, 1)],
      node_label = [(\<lparr>index = 0, startAngle = 0, endAngle = 2\<rparr>, 1),
                    (\<lparr>index = 1, startAngle = 2, endAngle = 4\<rparr>, 1),
                    (\<lparr>index = 2, startAngle = 4, endAngle = 6\<rparr>, 1)]\<rparr> \<and>
   all_opaque
     (fadeIn (GroupD \<lparr>index = 0, startAngle = 0, endAngle = 2\<rparr>) 0
       (fadeOut (GroupD \<lparr>index = 0, startAngle = 0, endAngle = 2\<rparr>) 0
         \<lparr>chords = [(\<lparr>source = \<lparr>index = 0\<rparr>, target = \<lparr>index = 1\<rparr>\<rparr>, 1),
                    (\<lparr>source = \<lparr>index = 1\<rparr>, target = \<lparr>index = 2\<rparr>\<rparr>, 1)],
          node_label = [(\<lparr>index = 0, startAngle = 0, endAngle = 2\<rparr>, 1),
                        (\<lparr>index = 1, startAngle = 2, endAngle = 4\<rparr>, 1),
                        (\<lparr>index = 2, startAngle = 4, endAngle = 6\<rparr>, 1)]\<rparr>))"
proof -
  let ?s = "\<lparr>chords = [(\<lparr>source = \<lparr>index = 0\<rparr>, target = \<lparr>index = 1\<rparr>\<rparr>, 1::real),
                (\<lparr>source = \<lparr>index = 1\<rparr>, target = \<lparr>index = 2\<rparr>\<rparr>, 1)],
      node_label = [(\<lparr>index = 0, startAngle = 0, endAngle = 2\<rparr>, 1::real),
                    (\<lparr>index = 1, startAngle = 2, endAngle = 4\<rparr>, 1),
                    (\<lparr>index = 2, startAngle = 4, endAngle = 6\<rparr>, 1)]\<rparr>"
  have opaque: "all_opaque ?s"
    by (simp add: all_opaque_def)
  from fadeIn_fadeOut_same_index
         [where s = "?s" and g = "GroupD \<lparr>index = 0, startAngle = 0, endAngle = 2\<rparr>"
            and k = 0 and g' = "GroupD \<lparr>index = 0, startAngle = 0, endAngle = 2\<rparr>" and k' = 0]
    opaque
  show ?thesis
    by blast
qed

lemma highlighted_after_dim:
  fixes xs :: "('a \<times> real) list"
  assumes "opacity \<noteq> 1"
  shows "list_all (\<lambda>(d, a). a = 1) xs \<Longrightarrow>
     map fst (filter (\<lambda>(d, a). a = 1) (map (\<lambda>(d, a). (d, if Q d then opacity else a)) xs)) =
     filter (\<lambda>d. \<not> Q d) (map fst xs)"
  using assms by (induction xs) (auto split: if_splits)

lemma related_groups_chord_records:
  "set (related_groups (chord_records m) i) =
     {j. i < length m \<and> j < length m \<and> j \<noteq> i \<and> (0 < m ! i ! j \<or> 0 < m ! j ! i)}"
proof (intro set_eqI iffI)
  fix j
  assume "j \<in> set (related_groups (chord_records m) i)"
  then show "j \<in> {j. i < length m \<and> j < length m \<and> j \<noteq> i \<and> (0 < m ! i ! j \<or> 0 < m ! j ! i)}"
    unfolding set_related_groups set_chord_records by auto
next
  fix j
  assume "j \<in> {j. i < length m \<and> j < length m \<and> j \<noteq> i \<and> (0 < m ! i ! j \<or> 0 < m ! j ! i)}"
  then have range: "i < length m" "j < length m" "j \<noteq> i"
    and weight: "0 < m ! i ! j \<or> 0 < m ! j ! i"
    by simp_all
  from weight show "j \<in> set (related_groups (chord_records m) i)"
  proof
    assume "0 < m ! i ! j"
    with range have "\<lparr>source = \<lparr>index = i\<rparr>, target = \<lparr>index = j\<rparr>\<rparr> \<in> set (chord_records m)"
      unfolding set_chord_records by blast
    then show ?thesis
      unfolding set_related_groups by force
  next
    assume "0 < m ! j ! i"
    with range have "\<lparr>source = \<lparr>index = j\<rparr>, target = \<lparr>index = i\<rparr>\<rparr> \<in> set (chord_records m)"
      unfolding set_chord_records by blast
    then show ?thesis
      unfolding set_related_groups by force
  qed
qed

lemma highlighted_groups_fadeOut:
  assumes "list_all (\<lambda>(d, a). a = 1) (node_label s)"
  shows "highlighted_groups (fadeOut g k s) =
     filter (\<lambda>j. j = event_index g k \<or>
                  j \<in> set (related_groups (map fst (chords s)) (event_index g k)))
       (map (\<lambda>(d, a). index d) (node_label s))"
proof -
  let ?Q = "\<lambda>d::group. index d \<noteq> event_index g k \<and>
              index d \<notin> set (related_groups (map fst (chords s)) (event_index g k))"
  have "highlighted_groups (fadeOut g k s) =
        map index (map fst (filter (\<lambda>(d, a). a = 1)
          (map (\<lambda>(d, a). (d, if ?Q d then 1 / 10 else a)) (node_label s))))"
    by (simp add: highlighted_groups_def fadeOut_def fade_node_label case_prod_unfold comp_def)
  also have "\<dots> = map index (filter (\<lambda>d. \<not> ?Q d) (map fst (node_label s)))"
    using assms by (subst highlighted_after_dim) simp_all
  also have "\<dots> = filter (\<lambda>j. j = event_index g k \<or>
                       j \<in> set (related_groups (map fst (chords s)) (event_index g k)))
                     (map (\<lambda>(d, a). index d) (node_label s))"
    by (simp add: filter_map comp_def case_prod_unfold)
  finally show ?thesis .
qed

lemma highlighted_chords_fadeOut:
  assumes "list_all (\<lambda>(d, a). a = 1) (chords s)"
  shows "highlighted_chords (fadeOut g k s) =
     filter (\<lambda>c. index (source c) = event_index g k \<or> index (target c) = event_index g k)
       (map fst (chords s))"
proof -
  let ?Q = "\<lambda>d::chord. index (source d) \<noteq> event_index g k \<and>
              index (target d) \<noteq> event_index g k"
  have "highlighted_chords (fadeOut g k s) =
        map fst (filter (\<lambda>(d, a). a = 1)
          (map (\<lambda>(d, a). (d, if ?Q d then 1 / 10 else a)) (chords s)))"
    by (simp add: highlighted_chords_def fadeOut_def fade_chords)
  also have "\<dots> = filter (\<lambda>d. \<not> ?Q d) (map fst (chords s))"
    using assms by (subst highlighted_after_dim) simp_all
  finally show ?thesis by simp
qed

text \<open>
  Claim C5. After \<^verbatim>\<open>fadeOut\<close> with focus index \<open>i\<close> on a freshly drawn wheel, the groups
  still at opacity 1 are exactly \<open>{i} \<union> {j. matrix[i][j] > 0 or matrix[j][i] > 0}\<close>, and
  the chords still at opacity 1 are exactly those whose source or target index is
  \<open>i\<close>. The chords drawn are those of the layout as the spec describes it.
\<close>

theorem fadeOut_highlights_neighbourhood:
  assumes "layout m pad = Inr L" and "event_index g k = i" and "i < length m"
  shows "set (highlighted_groups (fadeOut g k (render L))) =
           {i} \<union> {j. j < length m \<and> (0 < m ! i ! j \<or> 0 < m ! j ! i)} \<and>
         highlighted_chords (fadeOut g k (render L)) =
           filter (\<lambda>c. index (source c) = i \<or> index (target c) = i) (layout_chords L)"
proof -
  have opaque: "list_all (\<lambda>(d, a). a = 1) (node_label (render L))"
    "list_all (\<lambda>(d, a). a = 1) (chords (render L))"
    by (simp_all add: render_def list_all_iff)
  have data: "map fst (chords (render L)) = chord_records m"
    using assms(1) by (simp add: render_def layout_Inr comp_def)
  have labels: "map (\<lambda>(d, a). index d) (node_label (render L)) = [0..<length m]"
    using assms(1) map_index_allocate [of 0 pad 0 "map (group_span m pad) [0..<length m]"]
    by (simp add: render_def layout_Inr comp_def)
  have "set (highlighted_groups (fadeOut g k (render L))) =
          {i} \<union> {j. j < length m \<and> (0 < m ! i ! j \<or> 0 < m ! j ! i)}"
    using assms(2,3)
    by (auto simp: highlighted_groups_fadeOut [OF opaque(1)] data labels
        related_groups_chord_records)
  moreover have "highlighted_chords (fadeOut g k (render L)) =
           filter (\<lambda>c. index (source c) = i \<or> index (target c) = i) (layout_chords L)"
    using assms(1,2) by (simp add: highlighted_chords_fadeOut [OF opaque(2)] data layout_Inr)
  ultimately show ?thesis by simp
qed

theorem fadeOut_highlights_neighbourhood_witness:
  "layout example_matrix (2 / 100) = Inr example_layout \<and>
   set (highlighted_groups
          (fadeOut (GroupD \<lparr>index = 0, startAngle = 0, endAngle = 3\<rparr>) 0
             (render example_layout))) =
     {0} \<union> {j. j < length example_matrix \<and>
                 (0 < example_matrix ! 0 ! j \<or> 0 < example_matrix ! j ! 0)} \<and>
   highlighted_chords
     (fadeOut (GroupD \<lparr>index = 0, startAngle = 0, endAngle = 3\<rparr>) 0 (render example_layout)) =
     filter (\<lambda>c. index (source c) = 0 \<or> index (target c) = 0) (layout_chords example_layout)"
proof -
  have "event_index (GroupD \<lparr>index = 0, startAngle = 0, endAngle = 3\<rparr>) 0 = 0"
    and "0 < length example_matrix"
    by (simp_all add: event_index_def example_matrix_def)
  from fadeOut_highlights_neighbourhood [OF layout_example this] layout_example show ?thesis
    by simp
qed


end
